theory Spec2Isabelle
  imports Main "HOL-Library.Word" "HOL-Library.Signed_Division"
begin

unbundle bit_operations_syntax

section \<open>Controller opcodes (Adafruit\_SH110X.h)\<close>

type_synonym uint8_t = "8 word"
type_synonym int8_t = "8 word"
type_synonym int16_t = "16 word"
type_synonym uint16_t = "16 word"

definition SH110X_MEMORYMODE :: uint8_t where "SH110X_MEMORYMODE = 0x20"
definition SH110X_SETCONTRAST :: uint8_t where "SH110X_SETCONTRAST = 0x81"
definition SH110X_SEGREMAP :: uint8_t where "SH110X_SEGREMAP = 0xA0"
definition SH110X_DISPLAYALLON_RESUME :: uint8_t where "SH110X_DISPLAYALLON_RESUME = 0xA4"
definition SH110X_NORMALDISPLAY :: uint8_t where "SH110X_NORMALDISPLAY = 0xA6"
definition SH110X_SETMULTIPLEX :: uint8_t where "SH110X_SETMULTIPLEX = 0xA8"
definition SH110X_DISPLAYOFF :: uint8_t where "SH110X_DISPLAYOFF = 0xAE"
definition SH110X_DISPLAYON :: uint8_t where "SH110X_DISPLAYON = 0xAF"
definition SH110X_COMSCANINC :: uint8_t where "SH110X_COMSCANINC = 0xC0"
definition SH110X_SETDISPLAYOFFSET :: uint8_t where "SH110X_SETDISPLAYOFFSET = 0xD3"
definition SH110X_SETDISPLAYCLOCKDIV :: uint8_t where "SH110X_SETDISPLAYCLOCKDIV = 0xD5"
definition SH110X_SETPRECHARGE :: uint8_t where "SH110X_SETPRECHARGE = 0xD9"
definition SH110X_SETVCOMDETECT :: uint8_t where "SH110X_SETVCOMDETECT = 0xDB"
definition SH110X_SETDISPSTARTLINE :: uint8_t where "SH110X_SETDISPSTARTLINE = 0xDC"

text \<open>
  Modelled from the spec: the macro \<open>SH110X_DCDC\<close> is used by \<open>begin\<close> but is not
  defined in Adafruit\_SH110X.h. The spec names the entry (charge-pump/DC-DC setting); the
  value is the one the comment on the table entry in \<open>begin\<close> gives, \<open>0xAD\<close>.
\<close>
definition SH110X_DCDC :: uint8_t where "SH110X_DCDC = 0xAD"

section \<open>The initialisation table of \<open>Adafruit_SH1107::begin\<close>\<close>

text \<open>The table \<open>static const uint8_t init[]\<close>, entry by entry, in the order of the source.\<close>

definition init :: "uint8_t list" where
  "init =
    [SH110X_DISPLAYOFF,
     SH110X_SETDISPLAYCLOCKDIV, 0x51,
     SH110X_MEMORYMODE,
     SH110X_SETCONTRAST, 0x4F,
     SH110X_DCDC, 0x8A,
     SH110X_SEGREMAP,
     SH110X_COMSCANINC,
     SH110X_SETDISPSTARTLINE, 0x0,
     SH110X_SETDISPLAYOFFSET, 0x60,
     SH110X_SETPRECHARGE, 0x22,
     SH110X_SETVCOMDETECT, 0x35,
     SH110X_SETMULTIPLEX, 0x3F,
     SH110X_DISPLAYALLON_RESUME,
     SH110X_NORMALDISPLAY]"

text \<open>\<open>sizeof(init)\<close>: the table holds bytes, so its size is its number of entries.\<close>

definition sizeof_init :: nat where
  "sizeof_init = length init"

text \<open>
  The limit of the comment above the table: "Init sequence, make sure its under 32 bytes,
  or split into multiples!".
\<close>
definition chunk_limit :: nat where
  "chunk_limit = 32"

section \<open>The display object and what \<open>begin\<close> does to the outside\<close>

text \<open>
  Everything \<open>begin\<close> calls lives outside the two source files (the inherited OLED base
  class, the graphics library, the Arduino core). Each such call is recorded as an event,
  in call order, together with the outcome the environment gave it:
  \<^item> \<open>Init addr reset\<close>: the call \<open>_init(addr, reset)\<close>, with the arguments it received;
  \<^item> \<open>ResetPin level\<close>: the reset line driven low (\<open>False\<close>) or high (\<open>True\<close>);
    \<open>ResetHold\<close>: the fixed hold time after it;
  \<^item> \<open>Alloc ok\<close>: the allocation of the framebuffer and whether it succeeded;
  \<^item> \<open>SetContrast level ok\<close>, \<open>SetRotation r\<close>, \<open>DrawBitmap x y bitmap w h color\<close>,
    \<open>Delay ms\<close>: the calls of these names with their arguments;
  \<^item> \<open>CommandList bytes ok\<close>: one call of \<open>oled_commandList\<close>, the bytes it sent and its
    result; \<open>Command c ok\<close>: one call of \<open>oled_command\<close> and whether the bus carried the
    byte.
\<close>

datatype event =
    Init uint8_t bool
  | ResetPin bool
  | ResetHold
  | Alloc bool
  | SetContrast uint8_t bool
  | SetRotation uint8_t
  | DrawBitmap int16_t int16_t "uint8_t list" int16_t int16_t uint16_t
  | CommandList "uint8_t list" bool
  | Delay nat
  | Command uint8_t bool

text \<open>
  The fields of the object that \<open>begin\<close> reads or that its callees set: the physical
  geometry (\<open>WIDTH\<close>, \<open>HEIGHT\<close>), the rotation, the reset pin given to the constructor
  (\<open>-1\<close> if not used), and the log of events so far.
\<close>

record oled =
  WIDTH :: int16_t
  HEIGHT :: int16_t
  rotation :: uint8_t
  rst_pin :: int8_t
  trace :: "event list"

text \<open>
  The environment of one run, a parameter of the model: whether the allocation succeeds
  and, for each transfer to the controller, whether the bus carries it.
\<close>

record env =
  malloc_ok :: bool
  contrast_ok :: "uint8_t \<Rightarrow> bool"
  commandList_ok :: "uint8_t list \<Rightarrow> bool"
  command_ok :: "uint8_t \<Rightarrow> bool"

text \<open>The splash bitmap of splash.h (not among the source files): taken as a parameter.\<close>

record splash =
  splash2_width :: int
  splash2_height :: int
  splash2_data :: "uint8_t list"

definition emit :: "event \<Rightarrow> oled \<Rightarrow> oled" where
  "emit e d = d\<lparr>trace := trace d @ [e]\<rparr>"

text \<open>
  Modelled from the spec: \<open>Adafruit_GrayOLED::_init\<close> is not under src/. Spec 4.5: when a
  valid reset pin is configured and the caller requests a hardware reset, reset is
  asserted low, held for a fixed settle time, released, and held again for a fixed
  recovery time; with no reset pin, or when the caller declines, this is skipped. Then the
  framebuffer is allocated, and a failed allocation is reported. The first event records
  the call with the arguments it received.
\<close>
definition GrayOLED_init :: "env \<Rightarrow> uint8_t \<Rightarrow> bool \<Rightarrow> oled \<Rightarrow> bool \<times> oled" where
  "GrayOLED_init b addr reset d =
    (let d = emit (Init addr reset) d;
         d = (if reset \<and> 0 \<le> sint (rst_pin d)
              then emit ResetHold (emit (ResetPin True) (emit ResetHold (emit (ResetPin False) d)))
              else d);
         d = emit (Alloc (malloc_ok b)) d
     in (malloc_ok b, d))"

text \<open>
  The other callees are not under src/ either. Each is reduced to the event it
  contributes; what it returns, and whether its transfer succeeds, is a parameter of the
  run (a field of \<open>env\<close>).
\<close>

text \<open>\<open>setContrast(level)\<close> of the OLED base class: one transfer to the controller.\<close>

definition setContrast :: "env \<Rightarrow> uint8_t \<Rightarrow> oled \<Rightarrow> oled" where
  "setContrast b level d = emit (SetContrast level (contrast_ok b level)) d"

text \<open>
  Modelled from the spec: \<open>setRotation\<close> of the graphics library, not under src/. Spec 3:
  the Rotation State is one of four discrete orientations, so the value stored is kept
  within 0..3. Nothing is sent to the controller.
\<close>
definition setRotation :: "uint8_t \<Rightarrow> oled \<Rightarrow> oled" where
  "setRotation r d = emit (SetRotation r) (d\<lparr>rotation := r AND 3\<rparr>)"

text \<open>\<open>drawBitmap(x, y, bitmap, w, h, color)\<close> of the graphics library: recorded only.\<close>

definition drawBitmap ::
  "int16_t \<Rightarrow> int16_t \<Rightarrow> uint8_t list \<Rightarrow> int16_t \<Rightarrow> int16_t \<Rightarrow> uint16_t \<Rightarrow> oled \<Rightarrow> oled" where
  "drawBitmap x y bitmap w h color d = emit (DrawBitmap x y bitmap w h color) d"

text \<open>
  \<open>oled_commandList(c, n)\<close> of the OLED base class: sends the first \<open>n\<close> bytes of \<open>c\<close> as
  commands and returns whether the bus carried them.
\<close>

definition oled_commandList :: "env \<Rightarrow> uint8_t list \<Rightarrow> uint8_t \<Rightarrow> oled \<Rightarrow> bool \<times> oled" where
  "oled_commandList b c n d =
    (let sent = take (unat n) c; ok = commandList_ok b sent
     in (ok, emit (CommandList sent ok) d))"

text \<open>\<open>delay(ms)\<close> of the Arduino core.\<close>

definition delay :: "nat \<Rightarrow> oled \<Rightarrow> oled" where
  "delay ms d = emit (Delay ms) d"

text \<open>
  \<open>oled_command(c)\<close> of the OLED base class: sends one command byte. The source takes no
  result from it; whether the bus carried the byte is recorded in the event.
\<close>

definition oled_command :: "env \<Rightarrow> uint8_t \<Rightarrow> oled \<Rightarrow> oled" where
  "oled_command b c d = emit (Command c (command_ok b c)) d"

section \<open>\<open>Adafruit_SH1107::begin\<close>\<close>

text \<open>
  Statement by statement (\<open>begin\<close> is a keyword of Isabelle, hence the prefixed name).
  The value of \<open>_init\<close> is dropped, as in the source; the integer expressions of the \<open>drawBitmap\<close> call are computed in \<open>int\<close> with C's truncating
  division and then converted to the 16-bit parameters; \<open>sizeof(init)\<close> is converted to
  the 8-bit length parameter of \<open>oled_commandList\<close>.
\<close>

definition SH1107_begin :: "env \<Rightarrow> splash \<Rightarrow> uint8_t \<Rightarrow> bool \<Rightarrow> oled \<Rightarrow> bool \<times> oled" where
  "SH1107_begin b sp addr reset d0 =
    (let d = snd (GrayOLED_init b addr reset d0);
         d = setContrast b 0x2F d;
         d = (if WIDTH d = 64 \<and> HEIGHT d = 128 then
                setRotation 0
                  (drawBitmap
                     (word_of_int ((sint (HEIGHT d) - splash2_width sp) sdiv 2))
                     (word_of_int ((sint (WIDTH d) - splash2_height sp) sdiv 2))
                     (splash2_data sp)
                     (word_of_int (splash2_width sp))
                     (word_of_int (splash2_height sp))
                     1
                     (setRotation 1 d))
              else d);
         (ok, d) = oled_commandList b init (of_nat sizeof_init) d
     in if \<not> ok then (False, d)
        else (True, oled_command b SH110X_DISPLAYON (delay 100 d)))"

section \<open>Reading the events of a run\<close>

text \<open>The events a call added to the log: those after the ones that were there before.\<close>

definition run_events :: "oled \<Rightarrow> oled \<Rightarrow> event list" where
  "run_events d d' = drop (length (trace d)) (trace d')"

text \<open>Submissions to the controller made by \<open>begin\<close> itself, and its settle delay.\<close>

fun is_command_or_delay :: "event \<Rightarrow> bool" where
  "is_command_or_delay (CommandList c ok) = True"
| "is_command_or_delay (Command c ok) = True"
| "is_command_or_delay (Delay n) = True"
| "is_command_or_delay e = False"

text \<open>Operations on the reset pin.\<close>

fun is_reset_pin :: "event \<Rightarrow> bool" where
  "is_reset_pin (ResetPin level) = True"
| "is_reset_pin e = False"

text \<open>The steps of the splash: rotation changes and bitmap draws.\<close>

fun is_splash_step :: "event \<Rightarrow> bool" where
  "is_splash_step (SetRotation r) = True"
| "is_splash_step (DrawBitmap x y bitmap w h color) = True"
| "is_splash_step e = False"

text \<open>A transfer to the controller that the bus did not carry.\<close>

fun failed_transfer :: "event \<Rightarrow> bool" where
  "failed_transfer (SetContrast level ok) = (\<not> ok)"
| "failed_transfer (CommandList c ok) = (\<not> ok)"
| "failed_transfer (Command c ok) = (\<not> ok)"
| "failed_transfer e = False"

text \<open>The call of \<open>_init\<close>.\<close>

fun is_init_call :: "event \<Rightarrow> bool" where
  "is_init_call (Init addr reset) = True"
| "is_init_call e = False"

text \<open>
  Modelled from the spec: the Controller Power State of spec 3 and 4.5, which is not a
  field of the object. \<open>Resetting\<close> records whether reset has been released;
  \<open>Configuring\<close> records how far the configuration has come: nothing yet, framebuffer
  allocated, command list applied, settle delay observed, or allocation failed (terminal).
\<close>
datatype progress = Fresh | Allocated | Listed | Settled | Failed

datatype power = Uninitialized | Resetting bool | Configuring progress | On | Off

text \<open>
  Modelled from the spec: the steps within Configuring (spec 4.5). The framebuffer is
  allocated, and a failure there is terminal; then the fixed command list is applied, and
  a failed submission leaves the state at Configuring; on success the settle delay is
  observed; then \<open>SH110X_DISPLAYON\<close>, once carried, makes the state On.
\<close>
definition configuring_step :: "progress \<Rightarrow> event \<Rightarrow> power" where
  "configuring_step g e =
     (case g of
        Fresh \<Rightarrow>
          (case e of Alloc ok \<Rightarrow> Configuring (if ok then Allocated else Failed)
           | _ \<Rightarrow> Configuring Fresh)
      | Allocated \<Rightarrow>
          (case e of CommandList c ok \<Rightarrow> Configuring (if ok \<and> c = init then Listed else Allocated)
           | _ \<Rightarrow> Configuring Allocated)
      | Listed \<Rightarrow>
          (case e of Delay ms \<Rightarrow> Configuring Settled
           | _ \<Rightarrow> Configuring Listed)
      | Settled \<Rightarrow>
          (case e of Command c ok \<Rightarrow> (if ok \<and> c = SH110X_DISPLAYON then On else Configuring Settled)
           | _ \<Rightarrow> Configuring Settled)
      | Failed \<Rightarrow> Configuring Failed)"

text \<open>
  Modelled from the spec: the transitions of spec 4.5, one event at a time. From
  Uninitialized, reset asserted low starts Resetting, which ends in Configuring after the
  release and the recovery hold; without a reset the allocation enters Configuring
  directly. Display-off and display-on commands toggle between On and Off. No other
  transition is defined: every other event leaves the state as it is.
\<close>
definition power_step :: "power \<Rightarrow> event \<Rightarrow> power" where
  "power_step p e =
     (case p of
        Uninitialized \<Rightarrow>
          (case e of ResetPin level \<Rightarrow> (if level then Uninitialized else Resetting False)
           | Alloc ok \<Rightarrow> configuring_step Fresh e
           | _ \<Rightarrow> Uninitialized)
      | Resetting released \<Rightarrow>
          (case e of ResetPin level \<Rightarrow> Resetting level
           | ResetHold \<Rightarrow> (if released then Configuring Fresh else Resetting False)
           | _ \<Rightarrow> Resetting released)
      | Configuring g \<Rightarrow> configuring_step g e
      | On \<Rightarrow>
          (case e of Command c ok \<Rightarrow> (if ok \<and> c = SH110X_DISPLAYOFF then Off else On)
           | _ \<Rightarrow> On)
      | Off \<Rightarrow>
          (case e of Command c ok \<Rightarrow> (if ok \<and> c = SH110X_DISPLAYON then On else Off)
           | _ \<Rightarrow> Off))"

text \<open>
  Modelled from the spec: the power state after the events of a run that starts at
  power-on.
\<close>
definition power_after :: "event list \<Rightarrow> power" where
  "power_after evs = foldl power_step Uninitialized evs"

text \<open>
  Modelled from the spec: a run reaches On when, starting from Uninitialized, its events
  take the controller through a successful allocation, the successful submission of the
  initialisation list, the settle delay and the carried display-on command.
\<close>
definition reaches_On :: "event list \<Rightarrow> bool" where
  "reaches_On evs = (power_after evs = On)"

text \<open>
  The three variable segments of the event sequence of \<open>begin\<close>: the reset pulse of
  \<open>_init\<close>, the splash, and the configuration with what follows it.
\<close>

definition reset_pulse :: "bool \<Rightarrow> oled \<Rightarrow> event list" where
  "reset_pulse reset d =
     (if reset \<and> 0 \<le> sint (rst_pin d) then [ResetPin False, ResetHold, ResetPin True, ResetHold]
      else [])"

definition splash_steps :: "splash \<Rightarrow> oled \<Rightarrow> event list" where
  "splash_steps sp d =
     (if WIDTH d = 64 \<and> HEIGHT d = 128 then
        [SetRotation 1,
         DrawBitmap (word_of_int ((sint (HEIGHT d) - splash2_width sp) sdiv 2))
                    (word_of_int ((sint (WIDTH d) - splash2_height sp) sdiv 2))
                    (splash2_data sp)
                    (word_of_int (splash2_width sp))
                    (word_of_int (splash2_height sp))
                    1,
         SetRotation 0]
      else [])"

definition config_steps :: "env \<Rightarrow> event list" where
  "config_steps b =
     (if commandList_ok b init then
        [CommandList init True, Delay 100, Command SH110X_DISPLAYON (command_ok b SH110X_DISPLAYON)]
      else [CommandList init False])"

section \<open>The drawing surface and the flush\<close>

text \<open>
  Modelled from the spec: the pixel colours of \<open>setPixel\<close> (spec 4.1: off, on, invert),
  under the names Adafruit\_SH110X.h gives them (0 draws 'off' pixels, 1 draws 'on'
  pixels, 2 inverts).
\<close>
datatype color = SH110X_BLACK | SH110X_WHITE | SH110X_INVERSE

text \<open>
  Modelled from the spec: the Rotation State, one of four discrete orientations
  (0, 90, 180 and 270 degrees).
\<close>
datatype orientation = R0 | R90 | R180 | R270

text \<open>
  Modelled from the spec: the Dirty Region, the bounding window of the bytes modified since
  the last flush. The empty region is \<open>None\<close> in the field \<open>dirty\<close> below.
\<close>
record window =
  minPage :: nat
  maxPage :: nat
  minColumn :: nat
  maxColumn :: nat

text \<open>
  Modelled from the spec: the drawing surface of spec 3, which the source files do not
  hold: the Display Geometry in pixels, the Rotation State, the Framebuffer in the
  controller's page/column layout, and the Dirty Region.
\<close>
record surface =
  width :: nat
  height :: nat
  rot :: orientation
  buffer :: "uint8_t list"
  dirty :: "window option"

text \<open>
  Modelled from the spec: the number of pages, \<open>ceil(height/8)\<close>.
\<close>
definition pages :: "surface \<Rightarrow> nat" where
  "pages s = (height s + 7) div 8"

text \<open>
  Modelled from the spec: the Framebuffer is sized to the geometry,
  \<open>ceil(height/8) * width\<close> bytes, and its size never changes.
\<close>
definition sized :: "surface \<Rightarrow> bool" where
  "sized s = (length (buffer s) = pages s * width s)"

text \<open>
  Modelled from the spec: a rotation swaps the effective width and height used by the
  Rotation Transform; the quarter turns exchange them.
\<close>
definition logical_width :: "surface \<Rightarrow> nat" where
  "logical_width s = (case rot s of R0 \<Rightarrow> width s | R180 \<Rightarrow> width s | R90 \<Rightarrow> height s | R270 \<Rightarrow> height s)"

text \<open>
  Modelled from the spec: the effective height, see \<open>logical_width\<close>.
\<close>
definition logical_height :: "surface \<Rightarrow> nat" where
  "logical_height s = (case rot s of R0 \<Rightarrow> height s | R180 \<Rightarrow> height s | R90 \<Rightarrow> width s | R270 \<Rightarrow> width s)"

text \<open>
  Modelled from the spec: the logical geometry bounds of a drawing coordinate.
\<close>
definition in_bounds :: "surface \<Rightarrow> int \<Rightarrow> int \<Rightarrow> bool" where
  "in_bounds s x y = (0 \<le> x \<and> x < int (logical_width s) \<and> 0 \<le> y \<and> y < int (logical_height s))"

text \<open>
  Modelled from the spec: the Rotation Transform of spec 4.4, from logical drawing
  coordinates to physical framebuffer coordinates. The spec leaves the function open; the
  model takes the four rotations of the physical rectangle onto itself.
\<close>
definition physical :: "surface \<Rightarrow> int \<Rightarrow> int \<Rightarrow> int \<times> int" where
  "physical s x y =
     (case rot s of
        R0 \<Rightarrow> (x, y)
      | R90 \<Rightarrow> (int (width s) - 1 - y, x)
      | R180 \<Rightarrow> (int (width s) - 1 - x, int (height s) - 1 - y)
      | R270 \<Rightarrow> (y, int (height s) - 1 - x))"

text \<open>
  Modelled from the spec: one byte per column within one page, pages one after the other.
\<close>
definition byte_index :: "surface \<Rightarrow> nat \<Rightarrow> nat \<Rightarrow> nat" where
  "byte_index s page column = page * width s + column"

text \<open>
  Modelled from the spec: a pixel write extends (never shrinks) the Dirty Region to include
  the written byte.
\<close>
definition extend_dirty :: "window option \<Rightarrow> nat \<Rightarrow> nat \<Rightarrow> window option" where
  "extend_dirty r page column =
     (case r of
        None \<Rightarrow> Some \<lparr>minPage = page, maxPage = page, minColumn = column, maxColumn = column\<rparr>
      | Some w \<Rightarrow> Some \<lparr>minPage = min (minPage w) page, maxPage = max (maxPage w) page,
                        minColumn = min (minColumn w) column, maxColumn = max (maxColumn w) column\<rparr>)"

text \<open>
  Modelled from the spec: \<open>setPixel\<close> sets, clears or toggles the bit.
\<close>
definition write_bit :: "color \<Rightarrow> nat \<Rightarrow> uint8_t \<Rightarrow> uint8_t" where
  "write_bit c n byte =
     (case c of
        SH110X_BLACK \<Rightarrow> unset_bit n byte
      | SH110X_WHITE \<Rightarrow> set_bit n byte
      | SH110X_INVERSE \<Rightarrow> flip_bit n byte)"

text \<open>
  Modelled from the spec: \<open>setPixel\<close> of spec 4.1 (the inherited \<open>drawPixel\<close>, not under
  src/). The coordinates are checked after the rotation mapping; out of range is a silent
  no-op. Otherwise the bit \<open>y mod 8\<close> of the byte at page \<open>y div 8\<close>, column \<open>x\<close> is
  written and the Dirty Region extended.
\<close>
definition setPixel :: "surface \<Rightarrow> int \<Rightarrow> int \<Rightarrow> color \<Rightarrow> surface" where
  "setPixel s x y c =
     (let (px, py) = physical s x y in
      if 0 \<le> px \<and> px < int (width s) \<and> 0 \<le> py \<and> py < int (height s) then
        let page = nat py div 8; column = nat px; i = byte_index s page column
        in s\<lparr>buffer := (buffer s)[i := write_bit c (nat py mod 8) (buffer s ! i)],
             dirty := extend_dirty (dirty s) page column\<rparr>
      else s)"

text \<open>
  Modelled from the spec: the framebuffer bit that corresponds to a logical coordinate.
\<close>
definition framebuffer_bit :: "surface \<Rightarrow> int \<Rightarrow> int \<Rightarrow> bool" where
  "framebuffer_bit s x y =
     (let (px, py) = physical s x y
      in bit (buffer s ! byte_index s (nat py div 8) (nat px)) (nat py mod 8))"

text \<open>
  The value a colour leaves in a bit that held \<open>old\<close>.
\<close>
definition written :: "color \<Rightarrow> bool \<Rightarrow> bool" where
  "written c old = (case c of SH110X_BLACK \<Rightarrow> False | SH110X_WHITE \<Rightarrow> True | SH110X_INVERSE \<Rightarrow> \<not> old)"


text \<open>
  Modelled from the spec: the transfers of a flush (spec 4.2), as named operations: the
  "set page address" command, the "set column address" command pair, and one chunk of
  pixel data.
\<close>
datatype transfer = SetPageAddress nat | SetColumnAddress nat | DataChunk "uint8_t list"

text \<open>
  Modelled from the spec: the Bus Transport of spec 6, with its chunk limit and, for each
  transfer, whether the bus carries it.
\<close>
record transport =
  chunkLimit :: nat
  carries :: "transfer \<Rightarrow> bool"

text \<open>
  Modelled from the spec: the Command Sequencer splits data into chunks of at most the
  chunk limit (spec 4.3). A limit of 0 cannot split anything: the run goes out whole.
\<close>
function chunks :: "nat \<Rightarrow> 'a list \<Rightarrow> 'a list list" where
  "chunks n xs =
     (if xs = [] then [] else if n = 0 then [xs] else take n xs # chunks n (drop n xs))"
  by pat_completeness auto
termination
  by (relation "measure (\<lambda>(n, xs). length xs)") auto

text \<open>
  Modelled from the spec: the contiguous byte run \<open>[minColumn, maxColumn]\<close> of a page.
\<close>
definition page_run :: "surface \<Rightarrow> window \<Rightarrow> nat \<Rightarrow> uint8_t list" where
  "page_run s w p =
     take (Suc (maxColumn w) - minColumn w) (drop (byte_index s p (minColumn w)) (buffer s))"

text \<open>
  Modelled from the spec: for each page, the page address, the column address positioned
  at \<open>minColumn\<close>, then the byte run of the page, chunked.
\<close>
definition page_transfers :: "nat \<Rightarrow> surface \<Rightarrow> window \<Rightarrow> nat \<Rightarrow> transfer list" where
  "page_transfers lim s w p =
     [SetPageAddress p, SetColumnAddress (minColumn w)] @ map DataChunk (chunks lim (page_run s w p))"

text \<open>
  Modelled from the spec: pages from \<open>minPage\<close> to \<open>maxPage\<close> inclusive, page-major.
\<close>
definition flush_plan :: "nat \<Rightarrow> surface \<Rightarrow> window \<Rightarrow> transfer list" where
  "flush_plan lim s w = concat (map (page_transfers lim s w) [minPage w ..< Suc (maxPage w)])"

text \<open>
  Modelled from the spec: transfers go out in order; the first one the bus does not carry
  ends the flush (no resumption, no automatic retry). The result is whether all were
  carried, and the transfers issued.
\<close>
fun send_all :: "(transfer \<Rightarrow> bool) \<Rightarrow> transfer list \<Rightarrow> bool \<times> transfer list" where
  "send_all ok [] = (True, [])"
| "send_all ok (t # ts) =
     (if ok t then (case send_all ok ts of (r, sent) \<Rightarrow> (r, t # sent)) else (False, [t]))"

text \<open>
  Modelled from the spec: \<open>Adafruit_SH110X::display\<close> is declared in Adafruit\_SH110X.h
  and defined nowhere under src/. Spec 4.2: with an empty Dirty Region the flush is a
  no-op without bus traffic; after a successful flush the Dirty Region resets to empty; on
  a failed transfer it is left unchanged. The result is the new state and the transfers
  issued on the bus.
\<close>
definition display :: "transport \<Rightarrow> surface \<Rightarrow> surface \<times> transfer list" where
  "display tr s =
     (case dirty s of
        None \<Rightarrow> (s, [])
      | Some w \<Rightarrow>
          (case send_all (carries tr) (flush_plan (chunkLimit tr) s w) of
             (True, sent) \<Rightarrow> (s\<lparr>dirty := None\<rparr>, sent)
           | (False, sent) \<Rightarrow> (s, sent)))"

section \<open>Example runs\<close>

text \<open>
  Buses that carry everything, that refuse the command list, and that refuse only the
  display-on command; a 64x128 display without reset pin and a 128x64 display with one; a
  bitmap header.
\<close>

definition bus_ok :: env where
  "bus_ok = \<lparr>malloc_ok = True, contrast_ok = (\<lambda>level. True),
             commandList_ok = (\<lambda>c. True), command_ok = (\<lambda>c. True)\<rparr>"

definition bus_list_fails :: env where
  "bus_list_fails = bus_ok\<lparr>commandList_ok := (\<lambda>c. False)\<rparr>"

definition bus_display_on_fails :: env where
  "bus_display_on_fails = bus_ok\<lparr>command_ok := (\<lambda>c. c \<noteq> SH110X_DISPLAYON)\<rparr>"

definition featherwing :: oled where
  "featherwing = \<lparr>WIDTH = 64, HEIGHT = 128, rotation = 0, rst_pin = - 1, trace = []\<rparr>"

definition oled_128x64_rst :: oled where
  "oled_128x64_rst = \<lparr>WIDTH = 128, HEIGHT = 64, rotation = 2, rst_pin = 4, trace = []\<rparr>"

definition a_splash :: splash where
  "a_splash = \<lparr>splash2_width = 115, splash2_height = 32, splash2_data = []\<rparr>"

text \<open>
  A 4x8 surface turned by 90 degrees, the same with one pixel drawn, and transports that
  carry nothing and everything.
\<close>

definition blank_4x8 :: surface where
  "blank_4x8 = \<lparr>width = 4, height = 8, rot = R90, buffer = [0, 0, 0, 0], dirty = None\<rparr>"

definition one_pixel :: surface where
  "one_pixel = setPixel blank_4x8 5 1 SH110X_WHITE"

definition no_ack :: transport where
  "no_ack = \<lparr>chunkLimit = 32, carries = (\<lambda>t. False)\<rparr>"

definition all_ack :: transport where
  "all_ack = \<lparr>chunkLimit = 32, carries = (\<lambda>t. True)\<rparr>"

section \<open>The initialisation table: length and bytes\<close>

lemmas opcode_defs =
  SH110X_MEMORYMODE_def SH110X_SETCONTRAST_def SH110X_SEGREMAP_def
  SH110X_DISPLAYALLON_RESUME_def SH110X_NORMALDISPLAY_def SH110X_SETMULTIPLEX_def
  SH110X_DISPLAYOFF_def SH110X_DISPLAYON_def SH110X_COMSCANINC_def
  SH110X_SETDISPLAYOFFSET_def SH110X_SETDISPLAYCLOCKDIV_def SH110X_SETPRECHARGE_def
  SH110X_SETVCOMDETECT_def SH110X_SETDISPSTARTLINE_def SH110X_DCDC_def

text \<open>
  C4. The initialisation command list that \<open>begin\<close> submits is 22 bytes long, which is
  within the 32-byte limit the comment above the table asks for; so it goes out as one
  chunk.
\<close>
theorem init_fits_one_chunk:
  "length init = 22 \<and> sizeof_init = 22 \<and> sizeof_init \<le> chunk_limit"
  by (simp add: init_def sizeof_init_def chunk_limit_def)

text \<open>
  C10. With the opcode names resolved, the initialisation list is the byte sequence
  AE D5 51 20 81 4F AD 8A A0 C0 DC 00 D3 60 D9 22 DB 35 A8 3F A4 A6, and the display-on
  command byte is AF.
\<close>
theorem init_bytes:
  "init = [0xAE, 0xD5, 0x51, 0x20, 0x81, 0x4F, 0xAD, 0x8A, 0xA0, 0xC0, 0xDC, 0x00,
           0xD3, 0x60, 0xD9, 0x22, 0xDB, 0x35, 0xA8, 0x3F, 0xA4, 0xA6]
   \<and> SH110X_DISPLAYON = 0xAF"
  by (simp add: init_def opcode_defs)

section \<open>The event sequence of \<open>begin\<close>\<close>

lemma sizeof_init_u8: "unat (of_nat sizeof_init :: uint8_t) = 22"
  by (simp add: sizeof_init_def init_def)

lemma take_init: "take 22 init = init"
  by (simp add: init_def)

lemma GrayOLED_init_snd:
  "snd (GrayOLED_init b addr reset d) =
     d\<lparr>trace := trace d @ Init addr reset # reset_pulse reset d @ [Alloc (malloc_ok b)]\<rparr>"
  by (simp add: GrayOLED_init_def emit_def reset_pulse_def Let_def)

lemma oled_commandList_init:
  "oled_commandList b init (of_nat sizeof_init) d =
     (commandList_ok b init, d\<lparr>trace := trace d @ [CommandList init (commandList_ok b init)]\<rparr>)"
  by (simp add: oled_commandList_def emit_def Let_def sizeof_init_u8 take_init)

lemma begin_closed:
  "SH1107_begin b sp addr reset d =
     (commandList_ok b init,
      d\<lparr>rotation := (if WIDTH d = 64 \<and> HEIGHT d = 128 then 0 else rotation d),
        trace := trace d @ Init addr reset # reset_pulse reset d
                   @ [Alloc (malloc_ok b), SetContrast 0x2F (contrast_ok b 0x2F)]
                   @ splash_steps sp d @ config_steps b\<rparr>)"
  unfolding SH1107_begin_def GrayOLED_init_snd oled_commandList_init
  by (simp add: setContrast_def setRotation_def drawBitmap_def delay_def oled_command_def
        emit_def splash_steps_def config_steps_def Let_def)

lemma begin_events:
  "run_events d (snd (SH1107_begin b sp addr reset d)) =
     Init addr reset # reset_pulse reset d
       @ [Alloc (malloc_ok b), SetContrast 0x2F (contrast_ok b 0x2F)]
       @ splash_steps sp d @ config_steps b"
  by (simp add: begin_closed run_events_def)


lemma begin_result: "fst (SH1107_begin b sp addr reset d) = commandList_ok b init"
  by (simp add: begin_closed)

lemma begin_rotation:
  "rotation (snd (SH1107_begin b sp addr reset d)) =
     (if WIDTH d = 64 \<and> HEIGHT d = 128 then 0 else rotation d)"
  by (simp add: begin_closed)

lemma filter_reset_pulse [simp]:
  "filter is_command_or_delay (reset_pulse reset d) = []"
  "filter is_splash_step (reset_pulse reset d) = []"
  "filter is_reset_pin (reset_pulse reset d) =
     (if reset \<and> 0 \<le> sint (rst_pin d) then [ResetPin False, ResetPin True] else [])"
  by (simp_all add: reset_pulse_def)

lemma filter_splash_steps [simp]:
  "filter is_command_or_delay (splash_steps sp d) = []"
  "filter is_reset_pin (splash_steps sp d) = []"
  by (simp_all add: splash_steps_def)

lemma filter_config_steps [simp]:
  "filter is_splash_step (config_steps b) = []"
  "filter is_reset_pin (config_steps b) = []"
  by (simp_all add: config_steps_def)

text \<open>
  C1. In every successful run of \<open>begin\<close>, the events end with the submission of the
  whole initialisation list, in the order of the source (display off; clock divider;
  memory mode; contrast; DC-DC; segment remap; scan direction; display start line; display
  offset; precharge; VCOM detect; multiplex; all-pixels-on resume; normal display), as one
  command list that succeeded, then the delay of 100 ms, then the command
  \<open>SH110X_DISPLAYON\<close> as the last event; nothing before them is a command submission or a
  delay.
\<close>
theorem begin_success_order:
  assumes "fst (SH1107_begin b sp addr reset d)"
  shows "\<exists>pre. run_events d (snd (SH1107_begin b sp addr reset d)) =
            pre @
            [CommandList
               [SH110X_DISPLAYOFF,
                SH110X_SETDISPLAYCLOCKDIV, 0x51,
                SH110X_MEMORYMODE,
                SH110X_SETCONTRAST, 0x4F,
                SH110X_DCDC, 0x8A,
                SH110X_SEGREMAP,
                SH110X_COMSCANINC,
                SH110X_SETDISPSTARTLINE, 0x0,
                SH110X_SETDISPLAYOFFSET, 0x60,
                SH110X_SETPRECHARGE, 0x22,
                SH110X_SETVCOMDETECT, 0x35,
                SH110X_SETMULTIPLEX, 0x3F,
                SH110X_DISPLAYALLON_RESUME,
                SH110X_NORMALDISPLAY] True,
             Delay 100,
             Command SH110X_DISPLAYON (command_ok b SH110X_DISPLAYON)]
          \<and> filter is_command_or_delay pre = []"
proof -
  from assms have ok: "commandList_ok b init"
    by (simp add: begin_result)
  let ?pre = "Init addr reset # reset_pulse reset d
       @ [Alloc (malloc_ok b), SetContrast 0x2F (contrast_ok b 0x2F)] @ splash_steps sp d"
  have "run_events d (snd (SH1107_begin b sp addr reset d)) =
          ?pre @ [CommandList init True, Delay 100,
                  Command SH110X_DISPLAYON (command_ok b SH110X_DISPLAYON)]"
    using ok by (simp add: begin_events config_steps_def)
  moreover have "filter is_command_or_delay ?pre = []"
    by simp
  ultimately show ?thesis
    unfolding init_def by blast
qed

theorem begin_success_order_witness:
  "fst (SH1107_begin bus_ok a_splash 0x3C True featherwing) \<and>
   (\<exists>pre. run_events featherwing (snd (SH1107_begin bus_ok a_splash 0x3C True featherwing)) =
            pre @
            [CommandList
               [SH110X_DISPLAYOFF,
                SH110X_SETDISPLAYCLOCKDIV, 0x51,
                SH110X_MEMORYMODE,
                SH110X_SETCONTRAST, 0x4F,
                SH110X_DCDC, 0x8A,
                SH110X_SEGREMAP,
                SH110X_COMSCANINC,
                SH110X_SETDISPSTARTLINE, 0x0,
                SH110X_SETDISPLAYOFFSET, 0x60,
                SH110X_SETPRECHARGE, 0x22,
                SH110X_SETVCOMDETECT, 0x35,
                SH110X_SETMULTIPLEX, 0x3F,
                SH110X_DISPLAYALLON_RESUME,
                SH110X_NORMALDISPLAY] True,
             Delay 100,
             Command SH110X_DISPLAYON (command_ok bus_ok SH110X_DISPLAYON)]
          \<and> filter is_command_or_delay pre = [])"
proof -
  have h: "fst (SH1107_begin bus_ok a_splash 0x3C True featherwing)"
    by (simp add: begin_result bus_ok_def)
  from h begin_success_order [OF h] show ?thesis by (rule conjI)
qed

text \<open>
  C2, as amended. \<open>begin\<close> returns false in every run in which the submission of the
  initialisation list fails. When \<open>_init\<close>, \<open>setContrast\<close> and that submission succeed, it
  returns true, whether or not the bus carries the final \<open>SH110X_DISPLAYON\<close>: the outcome
  of that command is not consulted.
\<close>
theorem begin_failure_signal:
  "(\<not> commandList_ok b init \<longrightarrow> fst (SH1107_begin b sp addr reset d) = False)
   \<and> (malloc_ok b \<and> contrast_ok b 0x2F \<and> commandList_ok b init \<longrightarrow>
        fst (SH1107_begin b sp addr reset d) = True
        \<and> last (run_events d (snd (SH1107_begin b sp addr reset d)))
            = Command SH110X_DISPLAYON (command_ok b SH110X_DISPLAYON))"
  by (simp add: begin_result begin_events config_steps_def)

theorem begin_failure_signal_witness:
  "\<not> commandList_ok bus_list_fails init
   \<and> fst (SH1107_begin bus_list_fails a_splash 0x3C True featherwing) = False
   \<and> malloc_ok bus_display_on_fails \<and> contrast_ok bus_display_on_fails 0x2F
   \<and> commandList_ok bus_display_on_fails init
   \<and> fst (SH1107_begin bus_display_on_fails a_splash 0x3C True featherwing) = True
   \<and> last (run_events featherwing
              (snd (SH1107_begin bus_display_on_fails a_splash 0x3C True featherwing)))
       = Command SH110X_DISPLAYON False"
  using begin_failure_signal [where b = bus_list_fails and sp = a_splash and addr = "0x3C"
          and reset = True and d = featherwing]
        begin_failure_signal [where b = bus_display_on_fails and sp = a_splash and addr = "0x3C"
          and reset = True and d = featherwing]
  by (simp add: bus_list_fails_def bus_display_on_fails_def bus_ok_def)

text \<open>
  C2 as stated fails on a bus that carries everything but the display-on command: the
  last event of the run is the failed transfer of \<open>SH110X_DISPLAYON\<close>, and \<open>begin\<close> returns
  true.
\<close>
theorem begin_display_on_failure_counterexample:
  "fst (SH1107_begin bus_display_on_fails a_splash 0x3C True featherwing) = True
   \<and> last (run_events featherwing
              (snd (SH1107_begin bus_display_on_fails a_splash 0x3C True featherwing)))
       = Command SH110X_DISPLAYON False
   \<and> failed_transfer (Command SH110X_DISPLAYON False)"
  by (simp add: begin_result begin_events config_steps_def bus_display_on_fails_def bus_ok_def)

text \<open>
  C3. In every run of \<open>begin\<close> in which the submission of the initialisation list fails,
  \<open>begin\<close> returns false, the failed submission is the last event of the run, and the
  command \<open>SH110X_DISPLAYON\<close> is not issued in that run.
\<close>
theorem begin_list_failure_aborts:
  assumes "\<not> commandList_ok b init"
  shows "fst (SH1107_begin b sp addr reset d) = False
       \<and> (\<exists>pre. run_events d (snd (SH1107_begin b sp addr reset d)) = pre @ [CommandList init False]
             \<and> filter is_command_or_delay pre = [])
       \<and> (\<forall>ok. Command SH110X_DISPLAYON ok
             \<notin> set (run_events d (snd (SH1107_begin b sp addr reset d))))"
proof -
  let ?pre = "Init addr reset # reset_pulse reset d
       @ [Alloc (malloc_ok b), SetContrast 0x2F (contrast_ok b 0x2F)] @ splash_steps sp d"
  have ev: "run_events d (snd (SH1107_begin b sp addr reset d)) = ?pre @ [CommandList init False]"
    using assms by (simp add: begin_events config_steps_def)
  have pre: "filter is_command_or_delay ?pre = []"
    by simp
  have "Command SH110X_DISPLAYON ok \<notin> set ?pre" for ok
  proof
    assume "Command SH110X_DISPLAYON ok \<in> set ?pre"
    then have "Command SH110X_DISPLAYON ok \<in> set (filter is_command_or_delay ?pre)"
      by (simp only: set_filter mem_Collect_eq is_command_or_delay.simps simp_thms)
    with pre show False by simp
  qed
  then have "\<forall>ok. Command SH110X_DISPLAYON ok
      \<notin> set (run_events d (snd (SH1107_begin b sp addr reset d)))"
    unfolding ev by simp
  moreover have "fst (SH1107_begin b sp addr reset d) = False"
    using assms by (simp add: begin_result)
  ultimately show ?thesis
    using ev pre by blast
qed

theorem begin_list_failure_aborts_witness:
  "\<not> commandList_ok bus_list_fails init
   \<and> fst (SH1107_begin bus_list_fails a_splash 0x3C True featherwing) = False
   \<and> (\<exists>pre. run_events featherwing (snd (SH1107_begin bus_list_fails a_splash 0x3C True featherwing))
              = pre @ [CommandList init False]
             \<and> filter is_command_or_delay pre = [])
   \<and> (\<forall>ok. Command SH110X_DISPLAYON ok
         \<notin> set (run_events featherwing (snd (SH1107_begin bus_list_fails a_splash 0x3C True featherwing))))"
proof -
  have h: "\<not> commandList_ok bus_list_fails init"
    by (simp add: bus_list_fails_def)
  from h begin_list_failure_aborts [OF h] show ?thesis by (rule conjI)
qed

lemma GrayOLED_init_events:
  "run_events d (snd (GrayOLED_init b addr reset d)) =
     Init addr reset # reset_pulse reset d @ [Alloc (malloc_ok b)]"
  by (simp add: GrayOLED_init_snd run_events_def)

lemma power_after_init:
  "foldl power_step Uninitialized (Init addr reset # reset_pulse reset d @ [Alloc ok]) =
     Configuring (if ok then Allocated else Failed)"
  by (simp add: reset_pulse_def power_step_def configuring_step_def)

lemma power_splash:
  "foldl power_step (Configuring g) (SetContrast l ok # splash_steps sp d) = Configuring g"
  by (cases g) (simp_all add: splash_steps_def power_step_def configuring_step_def)

lemma power_config_allocated:
  "foldl power_step (Configuring Allocated) (config_steps b) =
     (if commandList_ok b init then
        (if command_ok b SH110X_DISPLAYON then On else Configuring Settled)
      else Configuring Allocated)"
  by (simp add: config_steps_def power_step_def configuring_step_def)

lemma power_config_failed:
  "foldl power_step (Configuring Failed) (config_steps b) = Configuring Failed"
  by (simp add: config_steps_def power_step_def configuring_step_def)

lemma power_after_begin:
  "power_after (run_events d (snd (SH1107_begin b sp addr reset d))) =
     (if malloc_ok b then
        if commandList_ok b init then
          if command_ok b SH110X_DISPLAYON then On else Configuring Settled
        else Configuring Allocated
      else Configuring Failed)"
proof -
  have "run_events d (snd (SH1107_begin b sp addr reset d)) =
      (Init addr reset # reset_pulse reset d @ [Alloc (malloc_ok b)])
        @ (SetContrast 0x2F (contrast_ok b 0x2F) # splash_steps sp d) @ config_steps b"
    by (simp add: begin_events)
  then have "power_after (run_events d (snd (SH1107_begin b sp addr reset d))) =
      foldl power_step (Configuring (if malloc_ok b then Allocated else Failed)) (config_steps b)"
    unfolding power_after_def
    by (simp only: foldl_append power_after_init power_splash)
  then show ?thesis
    by (simp add: power_config_allocated power_config_failed)
qed

lemma filter_init_call [simp]:
  "filter is_init_call (reset_pulse reset d) = []"
  "filter is_init_call (splash_steps sp d) = []"
  "filter is_init_call (config_steps b) = []"
  by (simp_all add: reset_pulse_def splash_steps_def config_steps_def)

text \<open>
  C8. \<open>begin\<close> calls \<open>_init\<close> once, first, with its own address and reset request
  unchanged, and adds no reset-pin operation to those of that call. The reset pin is
  pulsed (low, then high) exactly when the request is true and the pin is valid, and not
  touched otherwise. Whatever the reset pin, the run reaches On exactly when the
  allocation, the submission of the initialisation list and the display-on command
  succeed; so with no reset pin, once these succeed, \<open>begin\<close> returns true and the run
  reaches On without any reset-pin operation.
\<close>
theorem begin_forwards_reset:
  "let evs = run_events d (snd (SH1107_begin b sp addr reset d)) in
     hd evs = Init addr reset
   \<and> filter is_init_call evs = [Init addr reset]
   \<and> filter is_reset_pin evs =
       filter is_reset_pin (run_events d (snd (GrayOLED_init b addr reset d)))
   \<and> filter is_reset_pin evs =
       (if reset \<and> 0 \<le> sint (rst_pin d) then [ResetPin False, ResetPin True] else [])
   \<and> reaches_On evs =
       (malloc_ok b \<and> commandList_ok b init \<and> command_ok b SH110X_DISPLAYON)
   \<and> (sint (rst_pin d) < 0 \<and> malloc_ok b \<and> commandList_ok b init
        \<and> command_ok b SH110X_DISPLAYON \<longrightarrow>
        fst (SH1107_begin b sp addr reset d) \<and> reaches_On evs \<and> filter is_reset_pin evs = [])"
  unfolding Let_def reaches_On_def power_after_begin
  by (simp add: begin_events begin_result GrayOLED_init_events)

theorem begin_forwards_reset_witness:
  "sint (rst_pin featherwing) < 0 \<and> malloc_ok bus_ok \<and> commandList_ok bus_ok init
   \<and> command_ok bus_ok SH110X_DISPLAYON
   \<and> fst (SH1107_begin bus_ok a_splash 0x3C True featherwing)
   \<and> reaches_On (run_events featherwing (snd (SH1107_begin bus_ok a_splash 0x3C True featherwing)))
   \<and> filter is_reset_pin
        (run_events featherwing (snd (SH1107_begin bus_ok a_splash 0x3C True featherwing))) = []
   \<and> filter is_reset_pin
        (run_events oled_128x64_rst (snd (SH1107_begin bus_ok a_splash 0x3C True oled_128x64_rst)))
       = [ResetPin False, ResetPin True]
   \<and> reaches_On
        (run_events oled_128x64_rst (snd (SH1107_begin bus_ok a_splash 0x3C True oled_128x64_rst)))
   \<and> \<not> reaches_On
        (run_events featherwing (snd (SH1107_begin bus_list_fails a_splash 0x3C True featherwing)))"
proof -
  have pin: "sint (rst_pin featherwing) < 0" "0 \<le> sint (rst_pin oled_128x64_rst)"
    by (simp_all add: featherwing_def oled_128x64_rst_def)
  have ok: "malloc_ok bus_ok" "commandList_ok bus_ok init" "command_ok bus_ok SH110X_DISPLAYON"
    by (simp_all add: bus_ok_def)
  have refused: "\<not> commandList_ok bus_list_fails init"
    by (simp add: bus_list_fails_def)
  note none = begin_forwards_reset [where d = featherwing and b = bus_ok and sp = a_splash
          and addr = "0x3C" and reset = True, unfolded Let_def]
  note pulse = begin_forwards_reset [where d = oled_128x64_rst and b = bus_ok and sp = a_splash
          and addr = "0x3C" and reset = True, unfolded Let_def]
  note fails = begin_forwards_reset [where d = featherwing and b = bus_list_fails
          and sp = a_splash and addr = "0x3C" and reset = True, unfolded Let_def]
  from none pin ok
  have "fst (SH1107_begin bus_ok a_splash 0x3C True featherwing)"
    and "reaches_On (run_events featherwing (snd (SH1107_begin bus_ok a_splash 0x3C True featherwing)))"
    and "filter is_reset_pin
        (run_events featherwing (snd (SH1107_begin bus_ok a_splash 0x3C True featherwing))) = []"
    by blast+
  moreover
  from pulse [THEN conjunct2, THEN conjunct2, THEN conjunct2, THEN conjunct1] pin
  have "filter is_reset_pin
        (run_events oled_128x64_rst (snd (SH1107_begin bus_ok a_splash 0x3C True oled_128x64_rst)))
       = [ResetPin False, ResetPin True]"
    by simp
  moreover
  from pulse [THEN conjunct2, THEN conjunct2, THEN conjunct2, THEN conjunct2, THEN conjunct1] ok
  have "reaches_On
        (run_events oled_128x64_rst (snd (SH1107_begin bus_ok a_splash 0x3C True oled_128x64_rst)))"
    by simp
  moreover
  from fails [THEN conjunct2, THEN conjunct2, THEN conjunct2, THEN conjunct2, THEN conjunct1] refused
  have "\<not> reaches_On
        (run_events featherwing (snd (SH1107_begin bus_list_fails a_splash 0x3C True featherwing)))"
    by simp
  ultimately show ?thesis using pin ok by simp
qed

text \<open>
  C9. When the physical geometry is 64 wide and 128 high, \<open>begin\<close> sets the rotation to 1,
  draws the splash bitmap once and sets the rotation to 0, in this order and with nothing
  in between, and the rotation is 0 afterwards. For every other geometry \<open>begin\<close> draws no
  bitmap, sets no rotation, and the rotation is what it was.
\<close>
theorem begin_splash_only_64x128:
  "let d' = snd (SH1107_begin b sp addr reset d); evs = run_events d d' in
   (WIDTH d = 64 \<and> HEIGHT d = 128 \<longrightarrow>
      (\<exists>pre post.
          evs = pre @
            [SetRotation 1,
             DrawBitmap (word_of_int ((128 - splash2_width sp) sdiv 2))
                        (word_of_int ((64 - splash2_height sp) sdiv 2))
                        (splash2_data sp)
                        (word_of_int (splash2_width sp))
                        (word_of_int (splash2_height sp))
                        1,
             SetRotation 0] @ post
          \<and> filter is_splash_step pre = [] \<and> filter is_splash_step post = [])
      \<and> rotation d' = 0)
   \<and> (\<not> (WIDTH d = 64 \<and> HEIGHT d = 128) \<longrightarrow>
        filter is_splash_step evs = [] \<and> rotation d' = rotation d)"
proof -
  let ?pre = "Init addr reset # reset_pulse reset d
       @ [Alloc (malloc_ok b), SetContrast 0x2F (contrast_ok b 0x2F)]"
  have ev: "run_events d (snd (SH1107_begin b sp addr reset d)) =
      ?pre @ splash_steps sp d @ config_steps b"
    by (simp add: begin_events)
  have pre: "filter is_splash_step ?pre = []" by simp
  have post: "filter is_splash_step (config_steps b) = []" by simp
  show ?thesis
  proof (cases "WIDTH d = 64 \<and> HEIGHT d = 128")
    case True
    then have "splash_steps sp d =
            [SetRotation 1,
             DrawBitmap (word_of_int ((128 - splash2_width sp) sdiv 2))
                        (word_of_int ((64 - splash2_height sp) sdiv 2))
                        (splash2_data sp)
                        (word_of_int (splash2_width sp))
                        (word_of_int (splash2_height sp))
                        1,
             SetRotation 0]"
      by (simp add: splash_steps_def)
    with ev pre post have "\<exists>pre post.
          run_events d (snd (SH1107_begin b sp addr reset d)) = pre @
            [SetRotation 1,
             DrawBitmap (word_of_int ((128 - splash2_width sp) sdiv 2))
                        (word_of_int ((64 - splash2_height sp) sdiv 2))
                        (splash2_data sp)
                        (word_of_int (splash2_width sp))
                        (word_of_int (splash2_height sp))
                        1,
             SetRotation 0] @ post
          \<and> filter is_splash_step pre = [] \<and> filter is_splash_step post = []"
      by metis
    moreover have "rotation (snd (SH1107_begin b sp addr reset d)) = 0"
      using True by (simp add: begin_rotation)
    ultimately show ?thesis using True unfolding Let_def by blast
  next
    case False
    then have "splash_steps sp d = []"
      by (auto simp add: splash_steps_def)
    with ev pre post have "filter is_splash_step (run_events d (snd (SH1107_begin b sp addr reset d))) = []"
      by simp
    moreover have "rotation (snd (SH1107_begin b sp addr reset d)) = rotation d"
      using False by (auto simp add: begin_rotation)
    ultimately show ?thesis using False unfolding Let_def by blast
  qed
qed

theorem begin_splash_only_64x128_witness:
  "WIDTH featherwing = 64 \<and> HEIGHT featherwing = 128 \<and>
      (\<exists>pre post.
          run_events featherwing (snd (SH1107_begin bus_ok a_splash 0x3C True featherwing)) = pre @
            [SetRotation 1, DrawBitmap 6 16 [] 115 32 1, SetRotation 0] @ post
          \<and> filter is_splash_step pre = [] \<and> filter is_splash_step post = [])
   \<and> rotation (snd (SH1107_begin bus_ok a_splash 0x3C True featherwing)) = 0
   \<and> \<not> (WIDTH oled_128x64_rst = 64 \<and> HEIGHT oled_128x64_rst = 128)
   \<and> filter is_splash_step
        (run_events oled_128x64_rst (snd (SH1107_begin bus_ok a_splash 0x3C True oled_128x64_rst))) = []
   \<and> rotation (snd (SH1107_begin bus_ok a_splash 0x3C True oled_128x64_rst)) = 2"
  using begin_splash_only_64x128 [where d = featherwing and b = bus_ok and sp = a_splash
          and addr = "0x3C" and reset = True]
        begin_splash_only_64x128 [where d = oled_128x64_rst and b = bus_ok and sp = a_splash
          and addr = "0x3C" and reset = True]
  by (simp add: Let_def featherwing_def oled_128x64_rst_def a_splash_def signed_divide_int_def)

section \<open>Pixels\<close>

lemma physical_in_range:
  "(case physical s x y of (px, py) \<Rightarrow>
      0 \<le> px \<and> px < int (width s) \<and> 0 \<le> py \<and> py < int (height s)) = in_bounds s x y"
  by (cases "rot s") (auto simp add: physical_def in_bounds_def logical_width_def logical_height_def)

lemma physical_update [simp]:
  "physical (s\<lparr>buffer := b, dirty := r\<rparr>) x y = physical s x y"
  by (simp add: physical_def split: orientation.splits)

lemma byte_index_update [simp]:
  "byte_index (s\<lparr>buffer := b, dirty := r\<rparr>) page column = byte_index s page column"
  by (simp add: byte_index_def)

lemma byte_index_in_buffer:
  assumes "sized s" "column < width s" "row < height s"
  shows "byte_index s (row div 8) column < length (buffer s)"
proof -
  have "row div 8 < pages s"
    using assms(3) unfolding pages_def by linarith
  then have "Suc (row div 8) \<le> pages s" by simp
  then have "Suc (row div 8) * width s \<le> pages s * width s"
    by (rule mult_le_mono1)
  with assms(1,2) show ?thesis
    by (simp add: byte_index_def sized_def)
qed

lemma bit_write_bit:
  "n < 8 \<Longrightarrow> bit (write_bit c n byte) n = written c (bit byte n)"
  by (cases c) (simp_all add: write_bit_def written_def bit_simps)

text \<open>
  C5. On a surface whose framebuffer has the size of its geometry, in every rotation state:
  for a coordinate within the logical bounds, the framebuffer bit read after \<open>setPixel\<close> is
  the one the colour writes (off for black, on for white, the complement of the bit before
  for inverse); for a coordinate out of bounds, \<open>setPixel\<close> leaves the framebuffer, every
  byte of it, and the dirty region as they were.
\<close>
theorem setPixel_reads_back:
  assumes "sized s"
  shows "(in_bounds s x y \<longrightarrow>
            framebuffer_bit (setPixel s x y c) x y = written c (framebuffer_bit s x y))
       \<and> (\<not> in_bounds s x y \<longrightarrow>
            buffer (setPixel s x y c) = buffer s \<and> dirty (setPixel s x y c) = dirty s)"
proof (cases "in_bounds s x y")
  case True
  obtain px py where p: "physical s x y = (px, py)" by (cases "physical s x y")
  with True physical_in_range [of s x y]
  have r: "0 \<le> px" "px < int (width s)" "0 \<le> py" "py < int (height s)" by simp_all
  let ?i = "byte_index s (nat py div 8) (nat px)"
  let ?s' = "s\<lparr>buffer := (buffer s)[?i := write_bit c (nat py mod 8) (buffer s ! ?i)],
               dirty := extend_dirty (dirty s) (nat py div 8) (nat px)\<rparr>"
  have i: "?i < length (buffer s)"
    using r by (intro byte_index_in_buffer [OF assms]) simp_all
  have s': "setPixel s x y c = ?s'"
    using p r by (simp add: setPixel_def Let_def)
  have "framebuffer_bit ?s' x y = bit (write_bit c (nat py mod 8) (buffer s ! ?i)) (nat py mod 8)"
    using i by (simp add: framebuffer_bit_def p)
  also have "\<dots> = written c (bit (buffer s ! ?i) (nat py mod 8))"
    by (rule bit_write_bit) simp
  also have "bit (buffer s ! ?i) (nat py mod 8) = framebuffer_bit s x y"
    by (simp add: framebuffer_bit_def p)
  finally show ?thesis using True s' by simp
next
  case False
  with physical_in_range [of s x y] have "setPixel s x y c = s"
    by (auto simp add: setPixel_def Let_def split: prod.splits)
  with False show ?thesis by simp
qed

theorem setPixel_reads_back_witness:
  "sized blank_4x8
   \<and> in_bounds blank_4x8 5 1
   \<and> framebuffer_bit (setPixel blank_4x8 5 1 SH110X_WHITE) 5 1
   \<and> \<not> in_bounds blank_4x8 1 5
   \<and> buffer (setPixel blank_4x8 1 5 SH110X_WHITE) = [0, 0, 0, 0]"
proof -
  have s: "sized blank_4x8"
    by (simp add: sized_def pages_def blank_4x8_def)
  have i: "in_bounds blank_4x8 5 1"
    by (simp add: in_bounds_def logical_width_def logical_height_def blank_4x8_def)
  have o: "\<not> in_bounds blank_4x8 1 5"
    by (simp add: in_bounds_def logical_width_def logical_height_def blank_4x8_def)
  from setPixel_reads_back [OF s, of 5 1 SH110X_WHITE] i
  have "framebuffer_bit (setPixel blank_4x8 5 1 SH110X_WHITE) 5 1"
    by (simp add: written_def)
  moreover from setPixel_reads_back [OF s, of 1 5 SH110X_WHITE] o
  have "buffer (setPixel blank_4x8 1 5 SH110X_WHITE) = [0, 0, 0, 0]"
    by (simp add: blank_4x8_def)
  ultimately show ?thesis using s i o by simp
qed

section \<open>The flush\<close>

lemma send_all_ok: "fst (send_all ok ts) = (\<forall>t \<in> set ts. ok t)"
  by (induction ts) (auto split: prod.splits)

lemma send_all_sent_ok: "(\<forall>t \<in> set (snd (send_all ok ts)). ok t) = fst (send_all ok ts)"
  by (induction ts) (auto split: prod.splits)

lemma send_all_complete: "fst (send_all ok ts) \<Longrightarrow> snd (send_all ok ts) = ts"
  by (induction ts) (auto split: prod.splits if_splits)

lemma display_clean: "dirty s = None \<Longrightarrow> display tr s = (s, [])"
  by (simp add: display_def)

lemma display_success:
  assumes "dirty s = Some w" "fst (send_all (carries tr) (flush_plan (chunkLimit tr) s w))"
  shows "display tr s = (s\<lparr>dirty := None\<rparr>, flush_plan (chunkLimit tr) s w)"
  using assms send_all_complete [OF assms(2)]
  by (cases "send_all (carries tr) (flush_plan (chunkLimit tr) s w)") (simp add: display_def)

lemma display_failure:
  assumes "dirty s = Some w" "\<not> fst (send_all (carries tr) (flush_plan (chunkLimit tr) s w))"
  shows "display tr s = (s, snd (send_all (carries tr) (flush_plan (chunkLimit tr) s w)))"
  using assms
  by (cases "send_all (carries tr) (flush_plan (chunkLimit tr) s w)") (simp add: display_def)

lemma display_all_carried:
  "(\<forall>t \<in> set (snd (display tr s)). carries tr t) =
     (case dirty s of None \<Rightarrow> True
      | Some w \<Rightarrow> fst (send_all (carries tr) (flush_plan (chunkLimit tr) s w)))"
proof (cases "dirty s")
  case None
  then show ?thesis by (simp add: display_clean)
next
  case (Some w)
  show ?thesis
  proof (cases "fst (send_all (carries tr) (flush_plan (chunkLimit tr) s w))")
    case True
    with Some show ?thesis
      using send_all_ok [of "carries tr" "flush_plan (chunkLimit tr) s w"]
      by (simp add: display_success)
  next
    case False
    with Some show ?thesis
      using send_all_sent_ok [of "carries tr" "flush_plan (chunkLimit tr) s w"]
      by (simp add: display_failure)
  qed
qed

lemma one_pixel_eq:
  "one_pixel = \<lparr>width = 4, height = 8, rot = R90, buffer = [0, 0, 32, 0],
       dirty = Some \<lparr>minPage = 0, maxPage = 0, minColumn = 2, maxColumn = 2\<rparr>\<rparr>"
  by (simp add: one_pixel_def blank_4x8_def setPixel_def physical_def byte_index_def
        write_bit_def extend_dirty_def Let_def)

lemma one_pixel_plan:
  "flush_plan 32 one_pixel \<lparr>minPage = 0, maxPage = 0, minColumn = 2, maxColumn = 2\<rparr> =
     [SetPageAddress 0, SetColumnAddress 2, DataChunk [32]]"
  by (simp add: one_pixel_eq flush_plan_def page_transfers_def page_run_def byte_index_def)

lemma display_no_ack: "display no_ack one_pixel = (one_pixel, [SetPageAddress 0])"
  using one_pixel_plan
  by (simp add: display_def no_ack_def one_pixel_eq)

lemma display_all_ack:
  "display all_ack one_pixel =
     (one_pixel\<lparr>dirty := None\<rparr>, [SetPageAddress 0, SetColumnAddress 2, DataChunk [32]])"
  using one_pixel_plan
  by (simp add: display_def all_ack_def one_pixel_eq)

text \<open>
  C6. If a transfer fails during \<open>display\<close>, the call leaves the state, and so the dirty
  region, unchanged; and a following \<open>display\<close> whose transfers are all carried sends the
  complete plan of the same window of the same framebuffer and leaves the dirty region
  empty.
\<close>
theorem display_failure_keeps_dirty:
  assumes "\<exists>t \<in> set (snd (display tr s)). \<not> carries tr t"
      and "\<forall>t \<in> set (snd (display tr' (fst (display tr s)))). carries tr' t"
  shows "fst (display tr s) = s
       \<and> dirty (fst (display tr s)) = dirty s
       \<and> (\<exists>w. dirty s = Some w
              \<and> snd (display tr' (fst (display tr s))) = flush_plan (chunkLimit tr') s w)
       \<and> dirty (fst (display tr' (fst (display tr s)))) = None"
proof -
  from assms(1) obtain w where w: "dirty s = Some w"
    by (cases "dirty s") (auto simp add: display_clean)
  from assms(1) have "\<not> fst (send_all (carries tr) (flush_plan (chunkLimit tr) s w))"
    using display_all_carried [of tr s] w by auto
  with w have first: "fst (display tr s) = s"
    by (simp add: display_failure)
  from assms(2) have "fst (send_all (carries tr') (flush_plan (chunkLimit tr') s w))"
    using display_all_carried [of tr' s] w first by simp
  with w have "display tr' s = (s\<lparr>dirty := None\<rparr>, flush_plan (chunkLimit tr') s w)"
    by (rule display_success)
  with first w show ?thesis by simp
qed

theorem display_failure_keeps_dirty_witness:
  "snd (display no_ack one_pixel) = [SetPageAddress 0]
   \<and> \<not> carries no_ack (SetPageAddress 0)
   \<and> list_all (carries all_ack) (snd (display all_ack (fst (display no_ack one_pixel))))
   \<and> fst (display no_ack one_pixel) = one_pixel
   \<and> dirty (fst (display no_ack one_pixel)) = dirty one_pixel
   \<and> (\<exists>w. dirty one_pixel = Some w
          \<and> snd (display all_ack (fst (display no_ack one_pixel)))
              = flush_plan (chunkLimit all_ack) one_pixel w)
   \<and> dirty (fst (display all_ack (fst (display no_ack one_pixel)))) = None"
proof -
  have sent: "snd (display no_ack one_pixel) = [SetPageAddress 0]"
    by (simp add: display_no_ack)
  have refused: "\<not> carries no_ack (SetPageAddress 0)"
    by (simp add: no_ack_def)
  have failed: "\<exists>t \<in> set (snd (display no_ack one_pixel)). \<not> carries no_ack t"
    unfolding sent using refused by simp
  have retried: "\<forall>t \<in> set (snd (display all_ack (fst (display no_ack one_pixel)))). carries all_ack t"
    by (simp add: all_ack_def)
  then have carried: "list_all (carries all_ack) (snd (display all_ack (fst (display no_ack one_pixel))))"
    by (simp only: list_all_iff)
  from display_failure_keeps_dirty [OF failed retried] sent refused carried
  show ?thesis by blast
qed

text \<open>
  C7. A \<open>display\<close> on an empty dirty region is a no-op without bus traffic. When every
  transfer of a \<open>display\<close> is carried, it leaves the framebuffer as it was and the dirty
  region empty, and a second \<open>display\<close> with no write in between issues no transfer at all
  and changes nothing, whatever the state and whatever the bus then does.
\<close>
theorem display_twice_no_traffic:
  "(dirty s = None \<longrightarrow> display tr s = (s, []))
   \<and> ((\<forall>t \<in> set (snd (display tr s)). carries tr t) \<longrightarrow>
        dirty (fst (display tr s)) = None
        \<and> buffer (fst (display tr s)) = buffer s
        \<and> snd (display tr' (fst (display tr s))) = []
        \<and> fst (display tr' (fst (display tr s))) = fst (display tr s))"
proof (cases "dirty s")
  case None
  then show ?thesis by (simp add: display_clean)
next
  case (Some w)
  have "dirty (fst (display tr s)) = None
        \<and> buffer (fst (display tr s)) = buffer s
        \<and> snd (display tr' (fst (display tr s))) = []
        \<and> fst (display tr' (fst (display tr s))) = fst (display tr s)"
    if "\<forall>t \<in> set (snd (display tr s)). carries tr t"
  proof -
    from that Some have "fst (send_all (carries tr) (flush_plan (chunkLimit tr) s w))"
      using display_all_carried [of tr s] by simp
    with Some have "display tr s = (s\<lparr>dirty := None\<rparr>, flush_plan (chunkLimit tr) s w)"
      by (rule display_success)
    then show ?thesis by (simp add: display_clean)
  qed
  with Some show ?thesis by simp
qed

theorem display_twice_no_traffic_witness:
  "dirty blank_4x8 = None
   \<and> display no_ack blank_4x8 = (blank_4x8, [])
   \<and> snd (display all_ack one_pixel) = [SetPageAddress 0, SetColumnAddress 2, DataChunk [32]]
   \<and> list_all (carries all_ack) (snd (display all_ack one_pixel))
   \<and> dirty (fst (display all_ack one_pixel)) = None
   \<and> buffer (fst (display all_ack one_pixel)) = buffer one_pixel
   \<and> snd (display no_ack (fst (display all_ack one_pixel))) = []"
proof -
  have clean: "dirty blank_4x8 = None"
    by (simp add: blank_4x8_def)
  have sent: "snd (display all_ack one_pixel) = [SetPageAddress 0, SetColumnAddress 2, DataChunk [32]]"
    by (simp add: display_all_ack)
  have carried: "\<forall>t \<in> set (snd (display all_ack one_pixel)). carries all_ack t"
    by (simp add: all_ack_def)
  then have all: "list_all (carries all_ack) (snd (display all_ack one_pixel))"
    by (simp only: list_all_iff)
  from display_twice_no_traffic [of blank_4x8 no_ack no_ack] clean
  have "display no_ack blank_4x8 = (blank_4x8, [])" by simp
  moreover from display_twice_no_traffic [of one_pixel all_ack no_ack] carried
  have "dirty (fst (display all_ack one_pixel)) = None
        \<and> buffer (fst (display all_ack one_pixel)) = buffer one_pixel
        \<and> snd (display no_ack (fst (display all_ack one_pixel))) = []"
    by simp
  ultimately show ?thesis using clean sent all by simp
qed

end
